theory Spec2Isabelle
  imports Main "HOL-Library.Word"
begin

section \<open>The relational schema (src/db/schema.ts)\<close>

text \<open>
  Every \<^verbatim>\<open>pgTable\<close> of the schema becomes a record of its columns and a table is the
  list of its rows.  A column declared \<^verbatim>\<open>.notNull()\<close> has its plain type, any other
  column is an \<open>option\<close> (SQL \<^verbatim>\<open>NULL\<close> is \<open>None\<close>).  A \<^verbatim>\<open>uuid\<close> is a 128-bit
  word, a \<^verbatim>\<open>date\<close> is the number of its day counted from 1970-01-01, an
  \<^verbatim>\<open>integer\<close> is an \<open>int\<close> and a \<^verbatim>\<open>varchar\<close> the list of its characters; which
  of these values the store holds is part of the constraints below.  Column \<^verbatim>\<open>id\<close>
  occurs in five tables and is written \<open>users_id\<close>, \<open>inventoryItems_id\<close>, ... here.
\<close>

type_synonym uuid = "128 word"
type_synonym date = int

datatype permissionRole = viewer | editor | admin

record User =
  users_id :: uuid
  username :: string
  passwordHash :: string
  permissionRole :: permissionRole

record Organisation =
  organisations_id :: uuid
  name :: string

record InventoryItemType =
  inventoryItemTypes_id :: uuid
  consumable :: bool
  description :: "string option"

record InventoryItemTypeSource =
  inventoryItemTypeSources_id :: uuid
  manufacturerId :: "uuid option"
  modelName :: string
  resupplyUri :: "string option"
  unitPrice :: "int option"
  unitPriceDate :: "date option"

record BomItem =
  itemTypeId :: "uuid option"
  ingredientTypeId :: "uuid option"
  quantity :: int
  reclaimable :: bool

datatype inventoryItemState = ok | damaged | lost | orphaned

record InventoryItem =
  inventoryItems_id :: uuid
  tag :: "string option"
  typeId :: uuid
  sourceId :: uuid
  locationId :: "uuid option"
  state :: inventoryItemState
  summary :: "string option"
  is_countable :: bool
  unit_price :: "int option"
  acquired_date :: "date option"

record InventoryItemStockCount =
  itemId :: uuid
  count :: int
  countDate :: date
  administrative :: bool
  userId :: uuid

record database =
  users :: "User list"
  organisations :: "Organisation list"
  inventoryItemTypes :: "InventoryItemType list"
  inventoryItemTypeSources :: "InventoryItemTypeSource list"
  bomItems :: "BomItem list"
  inventoryItems :: "InventoryItem list"
  inventoryItemStockCounts :: "InventoryItemStockCount list"

definition emptyDatabase :: database where
  "emptyDatabase = \<lparr>users = [], organisations = [], inventoryItemTypes = [],
     inventoryItemTypeSources = [], bomItems = [], inventoryItems = [],
     inventoryItemStockCounts = []\<rparr>"

text \<open>
  The error kinds of the specification's taxonomy, and \<open>DataException\<close>: the store's
  own error for a query whose parameter is no value of the column's type, which no
  code of the repository catches or translates.
\<close>

datatype error =
  ConstraintViolation | PermissionDenied | AuthenticationFailed | InvalidToken | DataException

section \<open>The constraints the schema declares\<close>

text \<open>
  The values a column holds.  \<^verbatim>\<open>integer(...)\<close> is a signed 32-bit integer.
  \<^verbatim>\<open>varchar(...)\<close>, declared without a length, is any text without the character
  U+0000.  \<^verbatim>\<open>date(...)\<close> is a day from Julian day 0 up to, not including, Julian
  day 2147483494 (the first day of the year 5874898); 1970-01-01 is Julian day
  2440588.  A column that is not \<^verbatim>\<open>.notNull()\<close> also holds \<^verbatim>\<open>NULL\<close>.
\<close>

definition integerValue :: "int \<Rightarrow> bool" where
  "integerValue n = (- 2147483648 \<le> n \<and> n \<le> 2147483647)"

definition varcharValue :: "string \<Rightarrow> bool" where
  "varcharValue s = (CHR 0x00 \<notin> set s)"

definition dateValue :: "date \<Rightarrow> bool" where
  "dateValue d = (- 2440588 \<le> d \<and> d < 2147483494 - 2440588)"

definition nullable :: "('a \<Rightarrow> bool) \<Rightarrow> 'a option \<Rightarrow> bool" where
  "nullable p v = (case v of None \<Rightarrow> True | Some x \<Rightarrow> p x)"

text \<open>
  \<^verbatim>\<open>.primaryKey()\<close> and \<^verbatim>\<open>primaryKey({ columns: [...] })\<close>: no two rows agree on the
  key.  A key column is also never \<^verbatim>\<open>NULL\<close>; of the key columns only
  \<^verbatim>\<open>bomItems.itemTypeId\<close> and \<^verbatim>\<open>bomItems.ingredientTypeId\<close> lack \<^verbatim>\<open>.notNull()\<close>, so
  only for them this is a constraint of its own below.
\<close>

definition primaryKey :: "('r \<Rightarrow> 'k) \<Rightarrow> 'r list \<Rightarrow> bool" where
  "primaryKey key rows = distinct (map key rows)"

text \<open>
  \<^verbatim>\<open>.references(() => t.id)\<close> and \<^verbatim>\<open>foreignKey({ columns, foreignColumns })\<close>: a value
  that is not \<^verbatim>\<open>NULL\<close> is the key of a row of the referenced table.
\<close>

definition references :: "('r \<Rightarrow> 'k option) \<Rightarrow> 'r list \<Rightarrow> ('t \<Rightarrow> 'k) \<Rightarrow> 't list \<Rightarrow> bool" where
  "references col rows key target =
     list_all (\<lambda>r. case col r of None \<Rightarrow> True | Some k \<Rightarrow> k \<in> set (map key target)) rows"

definition usersConstraints :: "database \<Rightarrow> bool" where
  "usersConstraints db =
     (list_all (\<lambda>r. varcharValue (username r) \<and> varcharValue (passwordHash r)) (users db)
      \<and> primaryKey users_id (users db))"

definition organisationsConstraints :: "database \<Rightarrow> bool" where
  "organisationsConstraints db =
     (list_all (\<lambda>r. varcharValue (name r)) (organisations db)
      \<and> primaryKey organisations_id (organisations db))"

definition inventoryItemTypesConstraints :: "database \<Rightarrow> bool" where
  "inventoryItemTypesConstraints db =
     (list_all (\<lambda>r. nullable varcharValue (description r)) (inventoryItemTypes db)
      \<and> primaryKey inventoryItemTypes_id (inventoryItemTypes db))"

definition inventoryItemTypeSourcesConstraints :: "database \<Rightarrow> bool" where
  "inventoryItemTypeSourcesConstraints db =
     (list_all (\<lambda>r. varcharValue (modelName r) \<and> nullable varcharValue (resupplyUri r)
                   \<and> nullable integerValue (unitPrice r) \<and> nullable dateValue (unitPriceDate r))
        (inventoryItemTypeSources db)
      \<and> primaryKey inventoryItemTypeSources_id (inventoryItemTypeSources db)
      \<and> references manufacturerId (inventoryItemTypeSources db)
           organisations_id (organisations db))"

definition bomItemsConstraints :: "database \<Rightarrow> bool" where
  "bomItemsConstraints db =
     (list_all (\<lambda>r. integerValue (quantity r)) (bomItems db)
      \<and> list_all (\<lambda>r. itemTypeId r \<noteq> None \<and> ingredientTypeId r \<noteq> None) (bomItems db)
      \<and> primaryKey (\<lambda>r. (itemTypeId r, ingredientTypeId r)) (bomItems db)
      \<and> references itemTypeId (bomItems db) inventoryItemTypes_id (inventoryItemTypes db)
      \<and> references ingredientTypeId (bomItems db)
           inventoryItemTypes_id (inventoryItemTypes db))"

definition inventoryItemsConstraints :: "database \<Rightarrow> bool" where
  "inventoryItemsConstraints db =
     (list_all (\<lambda>r. nullable varcharValue (tag r) \<and> nullable varcharValue (summary r)
                   \<and> nullable integerValue (unit_price r) \<and> nullable dateValue (acquired_date r))
        (inventoryItems db)
      \<and> primaryKey inventoryItems_id (inventoryItems db)
      \<and> references (\<lambda>r. Some (typeId r)) (inventoryItems db)
           inventoryItemTypes_id (inventoryItemTypes db)
      \<and> references (\<lambda>r. Some (sourceId r)) (inventoryItems db)
           inventoryItemTypeSources_id (inventoryItemTypeSources db)
      \<and> references locationId (inventoryItems db) inventoryItems_id (inventoryItems db))"

definition inventoryItemStockCountsConstraints :: "database \<Rightarrow> bool" where
  "inventoryItemStockCountsConstraints db =
     (list_all (\<lambda>r. integerValue (count r) \<and> dateValue (countDate r))
        (inventoryItemStockCounts db)
      \<and> primaryKey (\<lambda>r. (itemId r, countDate r)) (inventoryItemStockCounts db)
      \<and> references (\<lambda>r. Some (itemId r)) (inventoryItemStockCounts db)
           inventoryItems_id (inventoryItems db)
      \<and> references (\<lambda>r. Some (userId r)) (inventoryItemStockCounts db)
           users_id (users db))"

definition schemaConstraints :: "database \<Rightarrow> bool" where
  "schemaConstraints db =
     (usersConstraints db \<and> organisationsConstraints db \<and> inventoryItemTypesConstraints db
      \<and> inventoryItemTypeSourcesConstraints db \<and> bomItemsConstraints db
      \<and> inventoryItemsConstraints db \<and> inventoryItemStockCountsConstraints db)"

text \<open>
  The schema is declarative: what it contributes at run time is that the store accepts
  a statement that writes exactly when the rows it leaves fit the declared columns and
  satisfy every declared constraint.  A statement is given by the state \<open>db'\<close> it asks
  for; a refused statement leaves the state as it was and fails, with
  \<open>ConstraintViolation\<close>, the one kind the specification has for a write that the store
  refuses.
\<close>

definition commit :: "database \<Rightarrow> database \<Rightarrow> (error + unit) \<times> database" where
  "commit db db' =
     (if schemaConstraints db' then (Inr (), db') else (Inl ConstraintViolation, db))"

text \<open>The states of the store: the empty one, and whatever statements lead to.\<close>

inductive reachable :: "database \<Rightarrow> bool" where
  initial: "reachable emptyDatabase"
| statement: "reachable db \<Longrightarrow> reachable (snd (commit db db'))"

text \<open>
  \<^verbatim>\<open>db.insert(inventoryItemStockCounts).values(row)\<close>: refused when the row's count
  is no 32-bit integer or its date no date of the store, when the pair (itemId,
  countDate) has a row already, or when the item or the user does not exist.
\<close>

definition insertStockCount :: "database \<Rightarrow> InventoryItemStockCount \<Rightarrow> (error + unit) \<times> database" where
  "insertStockCount db row =
     commit db (db\<lparr>inventoryItemStockCounts := inventoryItemStockCounts db @ [row]\<rparr>)"

text \<open>
  \<^verbatim>\<open>db.insert(users).values(v)\<close>.  The values of an insert may leave out the columns
  that have a default: \<^verbatim>\<open>id\<close> (\<^verbatim>\<open>defaultRandom()\<close>, the drawn identifier is the
  parameter \<open>random\<close>) and \<^verbatim>\<open>permissionRole\<close> (\<^verbatim>\<open>default("viewer")\<close>).
\<close>

record NewUser =
  new_id :: "uuid option"
  new_username :: string
  new_passwordHash :: string
  new_permissionRole :: "permissionRole option"

definition userRow :: "uuid \<Rightarrow> NewUser \<Rightarrow> User" where
  "userRow random v =
     \<lparr>users_id = (case new_id v of None \<Rightarrow> random | Some i \<Rightarrow> i),
      username = new_username v,
      passwordHash = new_passwordHash v,
      permissionRole = (case new_permissionRole v of None \<Rightarrow> viewer | Some r \<Rightarrow> r)\<rparr>"

definition insertUser :: "database \<Rightarrow> uuid \<Rightarrow> NewUser \<Rightarrow> (error + unit) \<times> database" where
  "insertUser db random v = commit db (db\<lparr>users := users db @ [userRow random v]\<rparr>)"

text \<open>
  \<^verbatim>\<open>pgEnum("permission_role", ["viewer", "editor", "admin"])\<close>: the labels in the order
  of the declaration, which is the order the store compares them in.
\<close>

definition permissionRoleValues :: "permissionRole list" where
  "permissionRoleValues = [viewer, editor, admin]"

definition enumPosition :: "permissionRole \<Rightarrow> nat" where
  "enumPosition r = length (takeWhile (\<lambda>x. x \<noteq> r) permissionRoleValues)"

section \<open>The login handler (src/modules/auth/auth.service.ts)\<close>

text \<open>
  \<^verbatim>\<open>db.query.users.findFirst({ where: eq(users.username, username) })\<close>, awaited.
  The store compares the column with the parameter as text: a parameter that holds
  the character U+0000 is no text, the query fails and the promise is rejected with
  the store's error.  Otherwise the promise resolves to the first row whose username
  is the parameter, or to \<^verbatim>\<open>undefined\<close>.  (The store is taken to be up and
  connected; a lost connection is outside this model.)
\<close>

definition findFirst :: "User list \<Rightarrow> string \<Rightarrow> error + User option" where
  "findFirst rows username' =
     (if \<not> varcharValue username' then Inl DataException
      else Inr (find (\<lambda>u. username u = username') rows))"

text \<open>
  The user record without its \<^verbatim>\<open>passwordHash\<close>: what the specification says a
  successful login returns.
\<close>

record UserProfile =
  profile_id :: uuid
  profile_username :: string
  profile_permissionRole :: permissionRole

definition withoutPasswordHash :: "User \<Rightarrow> UserProfile" where
  "withoutPasswordHash u = \<lparr>profile_id = users_id u, profile_username = username u,
     profile_permissionRole = permissionRole u\<rparr>"

text \<open>
  \<^verbatim>\<open>AuthService.login\<close> awaits the query, binds the row to \<^verbatim>\<open>user\<close> and its body
  ends there: no \<^verbatim>\<open>try\<close>, no \<^verbatim>\<open>throw\<close>, no \<^verbatim>\<open>return\<close>, and \<^verbatim>\<open>password\<close> is
  never read.  A rejected query therefore rejects the login with the same error
  (\<open>Inl e\<close>); otherwise the promise resolves to \<^verbatim>\<open>undefined\<close>, which is \<open>Inr None\<close>
  here, \<open>Inr (Some p)\<close> being a returned profile.
\<close>

definition login :: "database \<Rightarrow> string \<Rightarrow> string \<Rightarrow> error + UserProfile option" where
  "login db username' password =
     (case findFirst (users db) username' of
        Inl e \<Rightarrow> Inl e
      | Inr user \<Rightarrow> Inr None)"

section \<open>The operations of the application layer\<close>

text \<open>
  The source declares the tables and the login handler only.  The operations that the
  specification's sections 4.1 and 4.2 describe on top of them are written here from
  the specification's words, each over the store modelled above.
\<close>

subsection \<open>Current quantity\<close>

datatype quantity = Known int | Unknown

text \<open>
  Modelled from the spec: the choice of "the stock-count row with max countDate" inside
  \<^verbatim>\<open>currentQuantity\<close>, which the source does not contain.  Among rows of the same
  date the one met first is kept.
\<close>

fun latestStockCount :: "InventoryItemStockCount list \<Rightarrow> InventoryItemStockCount option" where
  "latestStockCount [] = None"
| "latestStockCount (r # rs) =
     (case latestStockCount rs of
        None \<Rightarrow> Some r
      | Some m \<Rightarrow> if countDate r < countDate m then Some m else Some r)"

text \<open>
  Modelled from the spec: the stock-count rows "for that item", which
  \<^verbatim>\<open>currentQuantity\<close> looks at.
\<close>

definition stockCountsOf :: "database \<Rightarrow> InventoryItem \<Rightarrow> InventoryItemStockCount list" where
  "stockCountsOf db item =
     filter (\<lambda>r. itemId r = inventoryItems_id item) (inventoryItemStockCounts db)"

text \<open>
  Modelled from the spec: \<^verbatim>\<open>currentQuantity(item)\<close>, which the source does not contain
  (the schema's comments state the rule: an item that is not countable has quantity 1,
  otherwise the most recent stock count is the current quantity).  It "returns 1
  immediately if \<^verbatim>\<open>!item.countable\<close>; otherwise returns the count of the stock-count
  row with max countDate for that item, or a defined unknown result if no row exists".
\<close>

definition currentQuantity :: "database \<Rightarrow> InventoryItem \<Rightarrow> quantity" where
  "currentQuantity db item =
     (if \<not> is_countable item then Known 1
      else case latestStockCount (stockCountsOf db item) of
             None \<Rightarrow> Unknown
           | Some r \<Rightarrow> Known (count r))"

subsection \<open>Recording a stock count\<close>

text \<open>
  Modelled from the spec: \<^verbatim>\<open>recordStockCount(item, count, date, administrative,
  actingUser)\<close>, which the source does not contain.  It "fails with ConstraintViolation
  if a count already exists for (item, date); fails with PermissionDenied if
  \<^verbatim>\<open>administrative=true\<close> and \<^verbatim>\<open>actingUser.permissionRole != admin\<close>".  The policy is
  checked above the schema, before the store is asked to insert; the store then
  refuses a second count for the pair by the table's primary key, and a count or a
  date that the column cannot hold.
\<close>

definition recordStockCount ::
    "database \<Rightarrow> uuid \<Rightarrow> int \<Rightarrow> date \<Rightarrow> bool \<Rightarrow> User \<Rightarrow> (error + unit) \<times> database" where
  "recordStockCount db item count' date' administrative' actingUser =
     (if administrative' \<and> permissionRole actingUser \<noteq> admin then (Inl PermissionDenied, db)
      else insertStockCount db
             \<lparr>itemId = item, count = count', countDate = date',
              administrative = administrative', userId = users_id actingUser\<rparr>)"

subsection \<open>Bill of materials\<close>



subsection \<open>Locations\<close>

text \<open>
  Modelled from the spec: one step of the ancestor walk, the location of the item with
  identifier \<open>i\<close>, if the item exists and has one.
\<close>

definition locationOf :: "database \<Rightarrow> uuid \<Rightarrow> uuid option" where
  "locationOf db i =
     (case find (\<lambda>r. inventoryItems_id r = i) (inventoryItems db) of
        None \<Rightarrow> None
      | Some r \<Rightarrow> locationId r)"

text \<open>
  Modelled from the spec: the cycle check of section 9, which the source does not
  contain: "cycle checks performed via ancestor-walk bounded by total item count before
  commit".  The walk starts at the proposed location \<open>cur\<close> and follows \<open>locationId\<close>
  upwards; the placement would close a cycle when the walk meets the item \<open>target\<close>
  that is being placed.  \<open>fuel\<close> is the number of steps still allowed; a walk that is
  cut off has not reached a root and counts as a cycle.
\<close>

fun wouldCycle :: "(uuid \<Rightarrow> uuid option) \<Rightarrow> nat \<Rightarrow> uuid \<Rightarrow> uuid \<Rightarrow> bool" where
  "wouldCycle loc 0 target cur = (cur = target \<or> loc cur \<noteq> None)"
| "wouldCycle loc (Suc fuel) target cur =
     (cur = target \<or> (case loc cur of None \<Rightarrow> False | Some p \<Rightarrow> wouldCycle loc fuel target p))"




text \<open>
  The location graph: an edge from an item to the item it is located in.
\<close>

definition locationGraph :: "database \<Rightarrow> (uuid \<times> uuid) set" where
  "locationGraph db =
     {(inventoryItems_id r, l) | r l. r \<in> set (inventoryItems db) \<and> locationId r = Some l}"

subsection \<open>Tokens (src/util/jwt.ts)\<close>

text \<open>
  \<^verbatim>\<open>jwtSchema\<close> is the payload of both tokens: the user row as \<^verbatim>\<open>userSchema\<close> selects
  it, and the expiry as a number (a time stamp, an \<open>int\<close> here).  The two plugins
  \<^verbatim>\<open>accessTokenJwt\<close> and \<^verbatim>\<open>refreshTokenJwt\<close> differ in their secret, read from the
  environment.
\<close>

record jwtSchema =
  user :: User
  expiresAt :: int

datatype tokenKind = accessTokenJwt | refreshTokenJwt

record Env =
  ACCESS_TOKEN_SECRET :: string
  REFRESH_TOKEN_SECRET :: string

definition secret :: "Env \<Rightarrow> tokenKind \<Rightarrow> string" where
  "secret env kind =
     (case kind of accessTokenJwt \<Rightarrow> ACCESS_TOKEN_SECRET env
                 | refreshTokenJwt \<Rightarrow> REFRESH_TOKEN_SECRET env)"

text \<open>
  Modelled from the spec: a signed token, "a signed structure containing
  \<^verbatim>\<open>{user, expiresAt}\<close>": the payload and the signature over it.  The signing
  function of the JWT library is the parameter \<open>sign\<close> of the operations below, a
  deterministic function of the secret and the payload, and the signature check is the
  comparison with the signature computed anew.  A string that does not parse as a
  token is not a value of this type.
\<close>

record 's token =
  payload :: jwtSchema
  signature :: 's

text \<open>
  Modelled from the spec: the issuing half of \<^verbatim>\<open>issueTokenPair(user)\<close>, which the source
  does not contain: "a signed token embedding \<^verbatim>\<open>{user, expiresAt}\<close>", signed with the
  secret of its kind.
\<close>

definition issueToken ::
    "(string \<Rightarrow> jwtSchema \<Rightarrow> 's) \<Rightarrow> Env \<Rightarrow> tokenKind \<Rightarrow> User \<Rightarrow> int \<Rightarrow> 's token" where
  "issueToken sign env kind u expiry =
     \<lparr>payload = \<lparr>user = u, expiresAt = expiry\<rparr>,
      signature = sign (secret env kind) \<lparr>user = u, expiresAt = expiry\<rparr>\<rparr>"

text \<open>
  Modelled from the spec: \<^verbatim>\<open>verifyToken(token, kind)\<close>, which the source does not
  contain.  It "fails with InvalidToken if signature check fails or expiresAt has
  passed; otherwise returns the embedded user claims"; a token is expired when
  \<open>now \<ge> expiresAt\<close> (section 4.2).  \<open>now\<close> is the time of the verification.
\<close>

definition verifyToken ::
    "(string \<Rightarrow> jwtSchema \<Rightarrow> 's) \<Rightarrow> Env \<Rightarrow> int \<Rightarrow> 's token \<Rightarrow> tokenKind \<Rightarrow> error + User" where
  "verifyToken sign env now tok kind =
     (if signature tok \<noteq> sign (secret env kind) (payload tok) then Inl InvalidToken
      else if expiresAt (payload tok) \<le> now then Inl InvalidToken
      else Inr (user (payload tok)))"

section \<open>Example data\<close>

text \<open>
  The databases the examples run on: the single user alice; and a small store with two
  users, three item types, a shelf that holds a box of screws, and two counts of the
  box.
\<close>

definition alice :: User where
  "alice = \<lparr>users_id = 1, username = ''alice'', passwordHash = ''secret'',
     permissionRole = editor\<rparr>"

definition aliceDatabase :: database where
  "aliceDatabase = emptyDatabase\<lparr>users := [alice]\<rparr>"

definition root :: User where
  "root = \<lparr>users_id = 2, username = ''root'', passwordHash = ''hunter2'',
     permissionRole = admin\<rparr>"

definition shelf :: InventoryItem where
  "shelf = \<lparr>inventoryItems_id = 30, tag = Some ''SHELF-A'', typeId = 12, sourceId = 20,
     locationId = None, state = ok, summary = None, is_countable = False,
     unit_price = None, acquired_date = None\<rparr>"

definition box :: InventoryItem where
  "box = \<lparr>inventoryItems_id = 31, tag = None, typeId = 10, sourceId = 20,
     locationId = Some 30, state = ok, summary = Some ''box of screws'', is_countable = True,
     unit_price = Some 3, acquired_date = Some 19000\<rparr>"

definition catalogue :: database where
  "catalogue = emptyDatabase
     \<lparr>users := [alice, root],
      inventoryItemTypes :=
        [\<lparr>inventoryItemTypes_id = 10, consumable = True, description = Some ''10mm Torx screw''\<rparr>,
         \<lparr>inventoryItemTypes_id = 11, consumable = False, description = Some ''bracket''\<rparr>,
         \<lparr>inventoryItemTypes_id = 12, consumable = False, description = Some ''shelf''\<rparr>],
      inventoryItemTypeSources :=
        [\<lparr>inventoryItemTypeSources_id = 20, manufacturerId = None, modelName = ''T25'',
          resupplyUri = None, unitPrice = Some 3, unitPriceDate = None\<rparr>]\<rparr>"

definition exampleDatabase :: database where
  "exampleDatabase = catalogue
     \<lparr>bomItems :=
        [\<lparr>itemTypeId = Some 11, ingredientTypeId = Some 10, quantity = 4, reclaimable = True\<rparr>],
      inventoryItems := [shelf, box],
      inventoryItemStockCounts :=
        [\<lparr>itemId = 31, count = 100, countDate = 19000, administrative = False, userId = 1\<rparr>,
         \<lparr>itemId = 31, count = 80, countDate = 19030, administrative = False, userId = 1\<rparr>]\<rparr>"




text \<open>
  A configuration for the token examples, and a stand-in for the signing function:
  the signature records the secret, the user name and the expiry it was made from.
\<close>

definition exampleEnv :: Env where
  "exampleEnv = \<lparr>ACCESS_TOKEN_SECRET = ''access-secret'', REFRESH_TOKEN_SECRET = ''refresh-secret''\<rparr>"

definition exampleSign :: "string \<Rightarrow> jwtSchema \<Rightarrow> string \<times> string \<times> int" where
  "exampleSign s p = (s, username (user p), expiresAt p)"

section \<open>The store keeps the declared constraints\<close>

lemmas constraint_defs = schemaConstraints_def usersConstraints_def
  organisationsConstraints_def inventoryItemTypesConstraints_def
  inventoryItemTypeSourcesConstraints_def bomItemsConstraints_def
  inventoryItemsConstraints_def inventoryItemStockCountsConstraints_def
  primaryKey_def references_def integerValue_def varcharValue_def dateValue_def nullable_def

lemmas example_defs = exampleDatabase_def catalogue_def emptyDatabase_def
  alice_def root_def shelf_def box_def

lemma schemaConstraints_empty: "schemaConstraints emptyDatabase"
  by (simp add: constraint_defs emptyDatabase_def)

lemma snd_commit_constraints:
  "schemaConstraints db \<Longrightarrow> schemaConstraints (snd (commit db db'))"
  by (simp add: commit_def)

lemma snd_commit_cases: "snd (commit db db') = db \<or> snd (commit db db') = db'"
  by (simp add: commit_def)

lemma reachable_constraints: "reachable db \<Longrightarrow> schemaConstraints db"
  by (induction rule: reachable.induct)
     (simp_all add: schemaConstraints_empty snd_commit_constraints)

lemma constraints_reachable: "schemaConstraints db \<Longrightarrow> reachable db"
  using reachable.statement [OF reachable.initial, of db] by (simp add: commit_def)


lemma primaryKey_unique_row:
  assumes "primaryKey key rows" and "k \<in> set (map key rows)"
  shows "\<exists>!r. r \<in> set rows \<and> key r = k"
proof -
  from assms(1) have inj: "inj_on key (set rows)"
    by (simp add: primaryKey_def distinct_map)
  from assms(2) obtain r where r: "r \<in> set rows" "key r = k" by auto
  show ?thesis
  proof (rule ex1I [of _ r])
    show "r \<in> set rows \<and> key r = k" using r by simp
  next
    fix r' assume "r' \<in> set rows \<and> key r' = k"
    with r inj show "r' = r" by (auto dest: inj_onD)
  qed
qed


lemma exampleDatabase_constraints: "schemaConstraints exampleDatabase"
  by (simp add: constraint_defs example_defs)

lemma exampleDatabase_reachable: "reachable exampleDatabase"
  by (rule constraints_reachable [OF exampleDatabase_constraints])

section \<open>Login\<close>

text \<open>
  C1, as stated: login fails with AuthenticationFailed both when no user has the
  username and when the user exists but the password does not match.  It fails in
  neither case: on the store without users \<^verbatim>\<open>login("nobody", "x")\<close> completes with no
  value, and so does \<^verbatim>\<open>login("alice", "wrongpassword")\<close> on the store that holds
  alice.
\<close>

theorem login_no_failure_counterexample:
  "login emptyDatabase ''nobody'' ''x'' = Inr None
   \<and> login emptyDatabase ''nobody'' ''x'' \<noteq> Inl AuthenticationFailed
   \<and> login aliceDatabase ''alice'' ''wrongpassword'' = Inr None
   \<and> login aliceDatabase ''alice'' ''wrongpassword'' \<noteq> Inl AuthenticationFailed"
  by (simp add: login_def findFirst_def varcharValue_def aliceDatabase_def emptyDatabase_def
      alice_def)

text \<open>
  C1, amended: for every username/password pair, login does not fail with
  AuthenticationFailed; when the lookup finds no user with that username, and equally
  when it finds one, whatever the password, login completes with no value, so the two
  cases have the same outcome and remain indistinguishable to the caller.
\<close>

theorem login_no_authentication_failure:
  "login db username' password \<noteq> Inl AuthenticationFailed
   \<and> (findFirst (users db) username' = Inr None \<longrightarrow> login db username' password = Inr None)
   \<and> (findFirst (users db) username' = Inr (Some u) \<longrightarrow> login db username' password = Inr None)"
  by (auto simp: login_def findFirst_def split: sum.splits if_splits)

theorem login_no_authentication_failure_witness:
  "findFirst (users emptyDatabase) ''nobody'' = Inr None
   \<and> login emptyDatabase ''nobody'' ''x'' = Inr None
   \<and> findFirst (users aliceDatabase) ''alice'' = Inr (Some alice)
   \<and> login aliceDatabase ''alice'' ''wrongpassword'' = Inr None
   \<and> login aliceDatabase ''alice'' ''wrongpassword'' \<noteq> Inl AuthenticationFailed"
proof -
  have n: "findFirst (users emptyDatabase) ''nobody'' = Inr None"
    by (simp add: findFirst_def varcharValue_def emptyDatabase_def)
  have a: "findFirst (users aliceDatabase) ''alice'' = Inr (Some alice)"
    by (simp add: findFirst_def varcharValue_def aliceDatabase_def emptyDatabase_def alice_def)
  from login_no_authentication_failure [of emptyDatabase "''nobody''" "''x''"] n
  have 1: "login emptyDatabase ''nobody'' ''x'' = Inr None" by blast
  from login_no_authentication_failure [of aliceDatabase "''alice''" "''wrongpassword''" alice] a
  have 2: "login aliceDatabase ''alice'' ''wrongpassword'' = Inr None
    \<and> login aliceDatabase ''alice'' ''wrongpassword'' \<noteq> Inl AuthenticationFailed" by blast
  from n a 1 2 show ?thesis by blast
qed

text \<open>
  A username that the store does not take as text: the query is rejected and so is
  the login, with the store's error.
\<close>

lemma login_rejected_query:
  "login db (''al'' @ [CHR 0x00] @ ''ice'') password = Inl DataException"
  by (simp add: login_def findFirst_def varcharValue_def)

text \<open>
  C2, as stated: when the user exists and the password matches, login returns the
  user's record without its passwordHash.  It does not: alice exists, and login
  returns no value for her, whatever password is presented (here the very string
  that is stored for her).
\<close>

theorem login_existing_user_counterexample:
  "findFirst (users aliceDatabase) ''alice'' = Inr (Some alice)
   \<and> login aliceDatabase ''alice'' ''secret'' \<noteq> Inr (Some (withoutPasswordHash alice))"
  by (simp add: login_def findFirst_def varcharValue_def aliceDatabase_def emptyDatabase_def
      alice_def)

text \<open>
  C2, amended: for every username/password pair for which a user with that username
  exists, whether or not the password matches, login discards the record it looked
  up and returns no value; in particular it returns no record that carries a
  passwordHash.
\<close>

theorem login_discards_user:
  "findFirst (users db) username' = Inr (Some u) \<Longrightarrow>
   login db username' password = Inr None
   \<and> login db username' password \<noteq> Inr (Some (withoutPasswordHash u))"
  by (simp add: login_def)

theorem login_discards_user_witness:
  "findFirst (users aliceDatabase) ''alice'' = Inr (Some alice)
   \<and> login aliceDatabase ''alice'' ''secret'' = Inr None
   \<and> login aliceDatabase ''alice'' ''secret'' \<noteq> Inr (Some (withoutPasswordHash alice))"
proof -
  have h: "findFirst (users aliceDatabase) ''alice'' = Inr (Some alice)"
    by (simp add: findFirst_def varcharValue_def aliceDatabase_def emptyDatabase_def alice_def)
  show ?thesis using h login_discards_user [OF h, of "''secret''"] by simp
qed

section \<open>Current quantity\<close>

lemma latestStockCount_None: "latestStockCount rs = None \<longleftrightarrow> rs = []"
  by (induction rs) (auto split: option.splits)

lemma latestStockCount_max:
  "latestStockCount rs = Some m \<Longrightarrow> m \<in> set rs \<and> (\<forall>r \<in> set rs. countDate r \<le> countDate m)"
proof (induction rs arbitrary: m)
  case Nil
  then show ?case by simp
next
  case (Cons r rs)
  show ?case
  proof (cases "latestStockCount rs")
    case None
    then have "rs = []" by (simp add: latestStockCount_None)
    with Cons.prems show ?thesis by simp
  next
    case (Some m')
    from Cons.IH [OF Some] have m': "m' \<in> set rs" "\<forall>r \<in> set rs. countDate r \<le> countDate m'"
      by simp_all
    show ?thesis
    proof (cases "countDate r < countDate m'")
      case True
      with Some Cons.prems have "m = m'" by simp
      with m' True show ?thesis by auto
    next
      case False
      with Some Cons.prems have "m = r" by simp
      with m' False show ?thesis by fastforce
    qed
  qed
qed

lemma stockCountsOf_same_date:
  assumes "reachable db"
    and "r \<in> set (stockCountsOf db item)" and "r' \<in> set (stockCountsOf db item)"
    and "countDate r' = countDate r"
  shows "r' = r"
proof -
  from assms(1) have "primaryKey (\<lambda>r. (itemId r, countDate r)) (inventoryItemStockCounts db)"
    by (auto dest: reachable_constraints
        simp: schemaConstraints_def inventoryItemStockCountsConstraints_def)
  then have inj: "inj_on (\<lambda>r. (itemId r, countDate r)) (set (inventoryItemStockCounts db))"
    by (simp add: primaryKey_def distinct_map)
  from assms(2,3) have "r \<in> set (inventoryItemStockCounts db)"
    and "r' \<in> set (inventoryItemStockCounts db)" and "itemId r' = itemId r"
    by (simp_all add: stockCountsOf_def)
  with inj assms(4) show ?thesis by (auto dest: inj_onD)
qed

text \<open>
  C3: for every inventory item I, if I.is_countable is false then currentQuantity(I)
  is 1 whatever stock-count rows exist for I; if I.is_countable is true and no row
  exists for I, the result is the defined value Unknown; if I.is_countable is true
  and a row exists, currentQuantity(I) is the count of a row of I whose countDate is
  the maximum among the rows of I, and in a state of the store that row is the only
  one of I with that date.
\<close>

theorem currentQuantity_correct:
  "(\<not> is_countable item \<longrightarrow> currentQuantity db item = Known 1)
   \<and> (is_countable item \<and> stockCountsOf db item = [] \<longrightarrow> currentQuantity db item = Unknown)
   \<and> (is_countable item \<and> stockCountsOf db item \<noteq> [] \<longrightarrow>
        (\<exists>r \<in> set (stockCountsOf db item).
            currentQuantity db item = Known (count r)
          \<and> (\<forall>r' \<in> set (stockCountsOf db item). countDate r' \<le> countDate r)
          \<and> (reachable db \<longrightarrow>
               (\<forall>r' \<in> set (stockCountsOf db item). countDate r' = countDate r \<longrightarrow> r' = r))))"
proof (intro conjI impI)
  show "\<not> is_countable item \<Longrightarrow> currentQuantity db item = Known 1"
    by (simp add: currentQuantity_def)
  show "is_countable item \<and> stockCountsOf db item = [] \<Longrightarrow> currentQuantity db item = Unknown"
    by (simp add: currentQuantity_def)
next
  assume a: "is_countable item \<and> stockCountsOf db item \<noteq> []"
  then obtain m where m: "latestStockCount (stockCountsOf db item) = Some m"
    using latestStockCount_None [of "stockCountsOf db item"] by auto
  from latestStockCount_max [OF m] have mx: "m \<in> set (stockCountsOf db item)"
    "\<forall>r' \<in> set (stockCountsOf db item). countDate r' \<le> countDate m" by simp_all
  from a m have q: "currentQuantity db item = Known (count m)"
    by (simp add: currentQuantity_def)
  have u: "reachable db \<longrightarrow>
      (\<forall>r' \<in> set (stockCountsOf db item). countDate r' = countDate m \<longrightarrow> r' = m)"
    using stockCountsOf_same_date [OF _ mx(1)] by blast
  from mx q u show "\<exists>r \<in> set (stockCountsOf db item).
            currentQuantity db item = Known (count r)
          \<and> (\<forall>r' \<in> set (stockCountsOf db item). countDate r' \<le> countDate r)
          \<and> (reachable db \<longrightarrow>
               (\<forall>r' \<in> set (stockCountsOf db item). countDate r' = countDate r \<longrightarrow> r' = r))"
    by blast
qed

text \<open>
  On the example store: the shelf is not countable, the box has no count in the bare
  catalogue, and its later count of 80 is its quantity in the example store.
\<close>

theorem currentQuantity_correct_witness:
  "\<not> is_countable shelf \<and> currentQuantity exampleDatabase shelf = Known 1
   \<and> is_countable box \<and> stockCountsOf catalogue box = []
   \<and> currentQuantity catalogue box = Unknown
   \<and> stockCountsOf exampleDatabase box \<noteq> [] \<and> reachable exampleDatabase
   \<and> currentQuantity exampleDatabase box = Known 80
   \<and> (\<exists>r \<in> set (stockCountsOf exampleDatabase box).
         currentQuantity exampleDatabase box = Known (count r)
       \<and> (\<forall>r' \<in> set (stockCountsOf exampleDatabase box). countDate r' \<le> countDate r)
       \<and> (\<forall>r' \<in> set (stockCountsOf exampleDatabase box). countDate r' = countDate r \<longrightarrow> r' = r))"
proof -
  have s: "\<not> is_countable shelf" by (simp add: shelf_def)
  have b: "is_countable box" by (simp add: box_def)
  have e: "stockCountsOf catalogue box = []"
    by (simp add: stockCountsOf_def example_defs)
  have n: "stockCountsOf exampleDatabase box \<noteq> []"
    by (simp add: stockCountsOf_def example_defs)
  have v: "currentQuantity exampleDatabase box = Known 80"
    by (simp add: currentQuantity_def stockCountsOf_def example_defs)
  from currentQuantity_correct [of shelf exampleDatabase] s
  have 1: "currentQuantity exampleDatabase shelf = Known 1" by blast
  from currentQuantity_correct [of box catalogue] b e
  have 2: "currentQuantity catalogue box = Unknown" by blast
  from currentQuantity_correct [of box exampleDatabase] b n exampleDatabase_reachable
  have 3: "\<exists>r \<in> set (stockCountsOf exampleDatabase box).
         currentQuantity exampleDatabase box = Known (count r)
       \<and> (\<forall>r' \<in> set (stockCountsOf exampleDatabase box). countDate r' \<le> countDate r)
       \<and> (\<forall>r' \<in> set (stockCountsOf exampleDatabase box). countDate r' = countDate r \<longrightarrow> r' = r)"
    by blast
  from s b e n v 1 2 3 exampleDatabase_reachable show ?thesis by blast
qed

section \<open>Stock counts: one per item and date\<close>



section \<open>BOM rows and their two item types\<close>

text \<open>
  C9: in every state of the store, each row of the BOM table has both its itemTypeId
  and its ingredientTypeId present, and each of the two is the identifier of exactly
  one row of the item-type table.
\<close>

theorem bom_item_references:
  assumes "reachable db" and "r \<in> set (bomItems db)"
  shows "\<exists>t u. itemTypeId r = Some t \<and> ingredientTypeId r = Some u
    \<and> (\<exists>!ty. ty \<in> set (inventoryItemTypes db) \<and> inventoryItemTypes_id ty = t)
    \<and> (\<exists>!ty. ty \<in> set (inventoryItemTypes db) \<and> inventoryItemTypes_id ty = u)"
proof -
  from assms(1) have c: "bomItemsConstraints db"
    and pk: "primaryKey inventoryItemTypes_id (inventoryItemTypes db)"
    by (auto dest: reachable_constraints
        simp: schemaConstraints_def inventoryItemTypesConstraints_def)
  from c assms(2) obtain t u where tu: "itemTypeId r = Some t" "ingredientTypeId r = Some u"
    by (auto simp: bomItemsConstraints_def list_all_iff)
  from c assms(2) tu have "t \<in> set (map inventoryItemTypes_id (inventoryItemTypes db))"
    and "u \<in> set (map inventoryItemTypes_id (inventoryItemTypes db))"
    by (auto simp: bomItemsConstraints_def references_def list_all_iff)
  with pk tu show ?thesis by (auto dest!: primaryKey_unique_row [OF pk] simp del: set_map)
qed

theorem bom_item_references_witness:
  "reachable exampleDatabase
   \<and> \<lparr>itemTypeId = Some 11, ingredientTypeId = Some 10, quantity = 4, reclaimable = True\<rparr>
       \<in> set (bomItems exampleDatabase)
   \<and> (\<exists>!ty. ty \<in> set (inventoryItemTypes exampleDatabase) \<and> inventoryItemTypes_id ty = 11)
   \<and> (\<exists>!ty. ty \<in> set (inventoryItemTypes exampleDatabase) \<and> inventoryItemTypes_id ty = 10)"
proof -
  let ?r = "\<lparr>itemTypeId = Some 11, ingredientTypeId = Some 10, quantity = 4, reclaimable = True\<rparr>"
  have m: "?r \<in> set (bomItems exampleDatabase)"
    by (simp add: example_defs)
  from bom_item_references [OF exampleDatabase_reachable m] exampleDatabase_reachable m
  show ?thesis by simp
qed

section \<open>The default role of a user\<close>

text \<open>
  C10: a user row inserted without a permissionRole gets the role viewer; viewer is
  the first of the enumeration viewer, editor, admin, which has no other member, and
  is not admin.
\<close>

theorem default_permission_role:
  "new_permissionRole v = None \<Longrightarrow>
     permissionRole (userRow random v) = viewer
   \<and> (fst (insertUser db random v) = Inr ()
        \<longrightarrow> users (snd (insertUser db random v)) = users db @ [userRow random v])
   \<and> permissionRole (userRow random v) \<noteq> admin
   \<and> enumPosition (permissionRole (userRow random v)) \<le> enumPosition r
   \<and> r \<in> set permissionRoleValues"
  by (cases r)
     (auto simp: userRow_def insertUser_def commit_def enumPosition_def permissionRoleValues_def)

theorem default_permission_role_witness:
  "new_permissionRole \<lparr>new_id = None, new_username = ''bob'', new_passwordHash = ''h'',
      new_permissionRole = None\<rparr> = None
   \<and> fst (insertUser exampleDatabase 3 \<lparr>new_id = None, new_username = ''bob'',
        new_passwordHash = ''h'', new_permissionRole = None\<rparr>) = Inr ()
   \<and> users (snd (insertUser exampleDatabase 3 \<lparr>new_id = None, new_username = ''bob'',
        new_passwordHash = ''h'', new_permissionRole = None\<rparr>))
      = [alice, root, \<lparr>users_id = 3, username = ''bob'', passwordHash = ''h'',
           permissionRole = viewer\<rparr>]
   \<and> enumPosition viewer \<le> enumPosition admin"
proof -
  let ?v = "\<lparr>new_id = None, new_username = ''bob'', new_passwordHash = ''h'',
      new_permissionRole = None\<rparr>"
  have h: "new_permissionRole ?v = None" by simp
  have acc: "fst (insertUser exampleDatabase 3 ?v) = Inr ()"
    by (simp add: insertUser_def userRow_def commit_def constraint_defs example_defs)
  have row: "userRow 3 ?v = \<lparr>users_id = 3, username = ''bob'', passwordHash = ''h'',
           permissionRole = viewer\<rparr>"
    by (simp add: userRow_def)
  have us: "users exampleDatabase = [alice, root]" by (simp add: example_defs)
  from default_permission_role [OF h, of 3 exampleDatabase admin] acc row us
  show ?thesis by simp
qed

section \<open>Administrative stock counts\<close>

text \<open>
  C5: for every call of recordStockCount with administrative = true: if the acting
  user's permissionRole is not admin, the call fails with PermissionDenied and the
  store is unchanged, so no row is created; if it is admin and no other precondition
  is violated (the store satisfies its constraints, the count is a 32-bit integer and
  the date a date of the store, the item and the acting user exist, and the item has
  no count for the date yet), the call succeeds and the store holds the new
  administrative row.
\<close>

theorem recordStockCount_administrative:
  "(permissionRole actingUser \<noteq> admin \<longrightarrow>
      recordStockCount db item c d True actingUser = (Inl PermissionDenied, db))
   \<and> (permissionRole actingUser = admin \<and> schemaConstraints db
      \<and> integerValue c \<and> dateValue d
      \<and> item \<in> set (map inventoryItems_id (inventoryItems db))
      \<and> users_id actingUser \<in> set (map users_id (users db))
      \<and> (item, d) \<notin> set (map (\<lambda>r. (itemId r, countDate r)) (inventoryItemStockCounts db))
      \<longrightarrow> recordStockCount db item c d True actingUser
          = (Inr (), db\<lparr>inventoryItemStockCounts := inventoryItemStockCounts db @
               [\<lparr>itemId = item, count = c, countDate = d, administrative = True,
                 userId = users_id actingUser\<rparr>]\<rparr>))"
proof (intro conjI impI)
  show "permissionRole actingUser \<noteq> admin \<Longrightarrow>
      recordStockCount db item c d True actingUser = (Inl PermissionDenied, db)"
    by (simp add: recordStockCount_def)
next
  let ?row = "\<lparr>itemId = item, count = c, countDate = d, administrative = True,
                 userId = users_id actingUser\<rparr>"
  let ?db' = "db\<lparr>inventoryItemStockCounts := inventoryItemStockCounts db @ [?row]\<rparr>"
  assume a: "permissionRole actingUser = admin \<and> schemaConstraints db
      \<and> integerValue c \<and> dateValue d
      \<and> item \<in> set (map inventoryItems_id (inventoryItems db))
      \<and> users_id actingUser \<in> set (map users_id (users db))
      \<and> (item, d) \<notin> set (map (\<lambda>r. (itemId r, countDate r)) (inventoryItemStockCounts db))"
  then have "inventoryItemStockCountsConstraints ?db'"
    by (simp add: schemaConstraints_def inventoryItemStockCountsConstraints_def
        primaryKey_def references_def)
  moreover from a have "usersConstraints ?db'" "organisationsConstraints ?db'"
    "inventoryItemTypesConstraints ?db'" "inventoryItemTypeSourcesConstraints ?db'"
    "bomItemsConstraints ?db'" "inventoryItemsConstraints ?db'"
    by (simp_all add: schemaConstraints_def usersConstraints_def organisationsConstraints_def
        inventoryItemTypesConstraints_def inventoryItemTypeSourcesConstraints_def
        bomItemsConstraints_def inventoryItemsConstraints_def)
  ultimately have "schemaConstraints ?db'" by (simp add: schemaConstraints_def)
  with a show "recordStockCount db item c d True actingUser = (Inr (), ?db')"
    by (simp add: recordStockCount_def insertStockCount_def commit_def)
qed

text \<open>
  On the example store: alice, an editor, is refused; root, an admin, records the
  same count.
\<close>

theorem recordStockCount_administrative_witness:
  "permissionRole alice \<noteq> admin
   \<and> recordStockCount exampleDatabase 31 90 19060 True alice
       = (Inl PermissionDenied, exampleDatabase)
   \<and> permissionRole root = admin \<and> schemaConstraints exampleDatabase
   \<and> integerValue 90 \<and> dateValue 19060
   \<and> 31 \<in> set (map inventoryItems_id (inventoryItems exampleDatabase))
   \<and> users_id root \<in> set (map users_id (users exampleDatabase))
   \<and> (31, 19060) \<notin> set (map (\<lambda>r. (itemId r, countDate r))
         (inventoryItemStockCounts exampleDatabase))
   \<and> recordStockCount exampleDatabase 31 90 19060 True root
       = (Inr (), exampleDatabase\<lparr>inventoryItemStockCounts :=
            inventoryItemStockCounts exampleDatabase @
              [\<lparr>itemId = 31, count = 90, countDate = 19060, administrative = True,
                userId = users_id root\<rparr>]\<rparr>)"
proof -
  have a: "permissionRole alice \<noteq> admin" by (simp add: alice_def)
  have r: "permissionRole root = admin" by (simp add: root_def)
  have i: "31 \<in> set (map inventoryItems_id (inventoryItems exampleDatabase))"
    by (simp add: example_defs)
  have u: "users_id root \<in> set (map users_id (users exampleDatabase))"
    by (simp add: example_defs)
  have v: "integerValue 90 \<and> dateValue 19060"
    by (simp add: integerValue_def dateValue_def)
  have f: "(31, 19060) \<notin> set (map (\<lambda>r. (itemId r, countDate r))
         (inventoryItemStockCounts exampleDatabase))"
    by (simp add: example_defs)
  from recordStockCount_administrative [of alice exampleDatabase 31 90 19060] a
  have 1: "recordStockCount exampleDatabase 31 90 19060 True alice
       = (Inl PermissionDenied, exampleDatabase)" by blast
  from recordStockCount_administrative [of root exampleDatabase 31 90 19060]
    r exampleDatabase_constraints v i u f
  have 2: "recordStockCount exampleDatabase 31 90 19060 True root
       = (Inr (), exampleDatabase\<lparr>inventoryItemStockCounts :=
            inventoryItemStockCounts exampleDatabase @
              [\<lparr>itemId = 31, count = 90, countDate = 19060, administrative = True,
                userId = users_id root\<rparr>]\<rparr>)" by blast
  from a r exampleDatabase_constraints v i u f 1 2 show ?thesis by blast
qed

text \<open>
  A count that is no 32-bit integer is refused by the store, also from an admin.
\<close>

lemma recordStockCount_count_out_of_range:
  "recordStockCount exampleDatabase 31 2147483648 19060 True root
     = (Inl ConstraintViolation, exampleDatabase)"
  by (simp add: recordStockCount_def insertStockCount_def commit_def constraint_defs
      example_defs)

section \<open>Placing items and the location graph\<close>



lemma find_primaryKey:
  "distinct (map key rows) \<Longrightarrow>
     find (\<lambda>r. key r = k) rows = Some r \<longleftrightarrow> r \<in> set rows \<and> key r = k"
  by (induction rows) (auto simp: image_iff)

lemma locationGraph_locationOf:
  assumes "schemaConstraints db"
  shows "locationGraph db = {(a, b). locationOf db a = Some b}"
proof -
  from assms have d: "distinct (map inventoryItems_id (inventoryItems db))"
    by (simp add: schemaConstraints_def inventoryItemsConstraints_def primaryKey_def)
  have "locationOf db a = Some b
      \<longleftrightarrow> (\<exists>r. r \<in> set (inventoryItems db) \<and> inventoryItems_id r = a \<and> locationId r = Some b)"
    for a b
  proof
    assume "locationOf db a = Some b"
    then obtain r where "find (\<lambda>r. inventoryItems_id r = a) (inventoryItems db) = Some r"
      and "locationId r = Some b"
      by (auto simp: locationOf_def split: option.splits)
    then show "\<exists>r. r \<in> set (inventoryItems db) \<and> inventoryItems_id r = a \<and> locationId r = Some b"
      by (auto simp: find_primaryKey [OF d])
  next
    assume "\<exists>r. r \<in> set (inventoryItems db) \<and> inventoryItems_id r = a \<and> locationId r = Some b"
    then obtain r where r: "r \<in> set (inventoryItems db) \<and> inventoryItems_id r = a"
      and l: "locationId r = Some b" by auto
    from r have "find (\<lambda>r. inventoryItems_id r = a) (inventoryItems db) = Some r"
      by (simp only: find_primaryKey [OF d])
    with l show "locationOf db a = Some b" by (simp add: locationOf_def)
  qed
  then show ?thesis by (auto simp: locationGraph_def)
qed









text \<open>
  The walk refuses nothing else: with as many steps as there are items, it reports a
  cycle only when the proposed location is the item itself or lies inside it.
\<close>

lemma wouldCycle_path:
  "wouldCycle loc fuel target cur \<Longrightarrow>
     (cur, target) \<in> {(a, b). loc a = Some b}\<^sup>* \<or> (\<exists>x. (cur, x) \<in> {(a, b). loc a = Some b} ^^ Suc fuel)"
proof (induction fuel arbitrary: cur)
  case 0
  then show ?case by auto
next
  case (Suc fuel)
  show ?case
  proof (cases "cur = target")
    case True
    then show ?thesis by simp
  next
    case False
    with Suc.prems obtain p where p: "loc cur = Some p" and w: "wouldCycle loc fuel target p"
      by (auto split: option.splits)
    from Suc.IH [OF w] show ?thesis
    proof
      assume "(p, target) \<in> {(a, b). loc a = Some b}\<^sup>*"
      with p have "(cur, target) \<in> {(a, b). loc a = Some b}\<^sup>*"
        by (auto intro: converse_rtrancl_into_rtrancl)
      then show ?thesis ..
    next
      assume "\<exists>x. (p, x) \<in> {(a, b). loc a = Some b} ^^ Suc fuel"
      then obtain x where "(p, x) \<in> {(a, b). loc a = Some b} ^^ Suc fuel" ..
      moreover from p have "(cur, p) \<in> {(a, b). loc a = Some b}" by simp
      ultimately have "(cur, x) \<in> {(a, b). loc a = Some b} ^^ Suc (Suc fuel)"
        by (rule relpow_Suc_I2 [rotated])
      then show ?thesis by blast
    qed
  qed
qed

lemma acyclic_path_length:
  assumes "acyclic G" and "Domain G \<subseteq> S" and "finite S" and "(a, x) \<in> G ^^ n"
  shows "n \<le> card S"
proof -
  from assms(4) obtain f where f: "\<forall>i<n. (f i, f (Suc i)) \<in> G"
    by (auto simp: relpow_fun_conv)
  have step: "j < k \<Longrightarrow> k \<le> n \<Longrightarrow> (f j, f k) \<in> G\<^sup>+" for j k
  proof (induction k)
    case 0
    then show ?case by simp
  next
    case (Suc k)
    from Suc.prems f have e: "(f k, f (Suc k)) \<in> G" by simp
    show ?case
    proof (cases "j = k")
      case True
      with e show ?thesis by auto
    next
      case False
      with Suc have "(f j, f k) \<in> G\<^sup>+" by simp
      from this e show ?thesis by (rule trancl_into_trancl)
    qed
  qed
  have "inj_on f {..<n}"
  proof (rule inj_onI)
    fix j k assume jk: "j \<in> {..<n}" "k \<in> {..<n}" and eq: "f j = f k"
    show "j = k"
    proof (rule ccontr)
      assume "j \<noteq> k"
      then consider "j < k" | "k < j" by linarith
      then have "(f j, f j) \<in> G\<^sup>+"
      proof cases
        case 1
        with step [of j k] jk eq show ?thesis by simp
      next
        case 2
        with step [of k j] jk eq show ?thesis by simp
      qed
      with assms(1) show False by (simp add: acyclic_def)
    qed
  qed
  then have "card (f ` {..<n}) = n" by (simp add: card_image)
  moreover have "f ` {..<n} \<subseteq> S" using f assms(2) by auto
  ultimately show ?thesis using assms(3) by (metis card_mono)
qed

lemma wouldCycle_only_for_cycles:
  assumes c: "schemaConstraints db" and a: "acyclic (locationGraph db)"
    and "wouldCycle (locationOf db) (length (inventoryItems db)) i l"
  shows "l = i \<or> (l, i) \<in> (locationGraph db)\<^sup>+"
proof -
  have g: "{(a, b). locationOf db a = Some b} = locationGraph db"
    by (rule locationGraph_locationOf [OF c, symmetric])
  have d: "Domain (locationGraph db) \<subseteq> set (map inventoryItems_id (inventoryItems db))"
    by (auto simp: locationGraph_def)
  have n: "card (set (map inventoryItems_id (inventoryItems db))) \<le> length (inventoryItems db)"
    using card_length [of "map inventoryItems_id (inventoryItems db)"] by simp
  from wouldCycle_path [OF assms(3)] g
  have "(l, i) \<in> (locationGraph db)\<^sup>*
      \<or> (\<exists>x. (l, x) \<in> locationGraph db ^^ Suc (length (inventoryItems db)))" by simp
  then show ?thesis
  proof
    assume "(l, i) \<in> (locationGraph db)\<^sup>*"
    then show ?thesis by (auto simp: rtrancl_eq_or_trancl)
  next
    assume "\<exists>x. (l, x) \<in> locationGraph db ^^ Suc (length (inventoryItems db))"
    then obtain x where "(l, x) \<in> locationGraph db ^^ Suc (length (inventoryItems db))" ..
    from acyclic_path_length [OF a d _ this] n show ?thesis by simp
  qed
qed






section \<open>The bill of materials: self-loops and quantities\<close>






section \<open>Verifying a token\<close>

text \<open>
  C8: for every token, kind and verification time, verifyToken fails with InvalidToken
  if the signature is not the one the secret of that kind gives for the payload, or if
  the embedded expiresAt has passed (expiresAt \<open>\<le>\<close> now); otherwise it succeeds and
  returns the embedded user.  For a token that was issued for user u, the returned
  user is u.
\<close>

theorem verifyToken_correct:
  "(signature tok \<noteq> sign (secret env kind) (payload tok) \<longrightarrow>
      verifyToken sign env now tok kind = Inl InvalidToken)
   \<and> (expiresAt (payload tok) \<le> now \<longrightarrow> verifyToken sign env now tok kind = Inl InvalidToken)
   \<and> (signature tok = sign (secret env kind) (payload tok) \<and> now < expiresAt (payload tok) \<longrightarrow>
      verifyToken sign env now tok kind = Inr (user (payload tok)))
   \<and> verifyToken sign env now (issueToken sign env kind u expiry) kind
      = (if expiry \<le> now then Inl InvalidToken else Inr u)"
  by (simp add: verifyToken_def issueToken_def)

text \<open>
  An access token for alice that expires at 200: valid at 100, expired at 200,
  refused as a refresh token, and refused once its payload names root.
\<close>

theorem verifyToken_correct_witness:
  "verifyToken exampleSign exampleEnv 100
      (issueToken exampleSign exampleEnv accessTokenJwt alice 200) accessTokenJwt = Inr alice
   \<and> verifyToken exampleSign exampleEnv 200
      (issueToken exampleSign exampleEnv accessTokenJwt alice 200) accessTokenJwt = Inl InvalidToken
   \<and> verifyToken exampleSign exampleEnv 100
      (issueToken exampleSign exampleEnv accessTokenJwt alice 200) refreshTokenJwt = Inl InvalidToken
   \<and> verifyToken exampleSign exampleEnv 100
      ((issueToken exampleSign exampleEnv accessTokenJwt alice 200)
         \<lparr>payload := \<lparr>user = root, expiresAt = 200\<rparr>\<rparr>) accessTokenJwt = Inl InvalidToken"
proof -
  let ?tok = "issueToken exampleSign exampleEnv accessTokenJwt alice 200"
  let ?forged = "?tok\<lparr>payload := \<lparr>user = root, expiresAt = 200\<rparr>\<rparr>"
  have p: "payload ?tok = \<lparr>user = alice, expiresAt = 200\<rparr>"
    and g: "signature ?tok = exampleSign (secret exampleEnv accessTokenJwt) (payload ?tok)"
    by (simp_all add: issueToken_def)
  have x: "signature ?tok \<noteq> exampleSign (secret exampleEnv refreshTokenJwt) (payload ?tok)"
    by (simp add: issueToken_def exampleSign_def secret_def exampleEnv_def)
  have y: "signature ?forged \<noteq> exampleSign (secret exampleEnv accessTokenJwt) (payload ?forged)"
    by (simp add: issueToken_def exampleSign_def alice_def root_def)
  from verifyToken_correct [of ?tok exampleSign exampleEnv accessTokenJwt 100] p g
  have 1: "verifyToken exampleSign exampleEnv 100 ?tok accessTokenJwt = Inr alice" by simp
  from verifyToken_correct [of ?tok exampleSign exampleEnv accessTokenJwt 200] p
  have 2: "verifyToken exampleSign exampleEnv 200 ?tok accessTokenJwt = Inl InvalidToken" by simp
  from verifyToken_correct [of ?tok exampleSign exampleEnv refreshTokenJwt 100] x
  have 3: "verifyToken exampleSign exampleEnv 100 ?tok refreshTokenJwt = Inl InvalidToken" by blast
  from verifyToken_correct [of ?forged exampleSign exampleEnv accessTokenJwt 100] y
  have 4: "verifyToken exampleSign exampleEnv 100 ?forged accessTokenJwt = Inl InvalidToken" by blast
  from 1 2 3 4 show ?thesis by blast
qed

section \<open>What the table of stock counts alone accepts\<close>

text \<open>
  The policy of recordStockCount is no constraint of the table: the store itself
  accepts an administrative count entered by an editor.
\<close>

lemma table_admits_administrative_count_of_editor:
  "permissionRole alice = editor
   \<and> fst (commit exampleDatabase
     (exampleDatabase\<lparr>inventoryItemStockCounts := inventoryItemStockCounts exampleDatabase @
        [\<lparr>itemId = 31, count = 90, countDate = 19060, administrative = True,
          userId = users_id alice\<rparr>]\<rparr>))
   = Inr ()"
  by (simp add: commit_def constraint_defs example_defs)

end
